theory Spec2Isabelle
  imports Complex_Main
begin

section \<open>JavaScript values\<close>

text \<open>
  A JavaScript number is either \<open>NaN\<close> or an ordinary value. The code under study never
  computes with numbers: it copies them, compares them and takes \<open>Math.min\<close> and
  \<open>Math.max\<close>, all of which are exact on doubles, so the ordinary values are taken from
  the reals. \<open>Math.min\<close> and \<open>Math.max\<close> return \<open>NaN\<close> as soon as one argument is.
\<close>

datatype number = NaN | Num real

definition isNaN :: "number \<Rightarrow> bool" where
  "isNaN v = (v = NaN)"

fun Math_min :: "number \<Rightarrow> number \<Rightarrow> number" where
  "Math_min (Num a) (Num b) = Num (min a b)"
| "Math_min _ _ = NaN"

fun Math_max :: "number \<Rightarrow> number \<Rightarrow> number" where
  "Math_max (Num a) (Num b) = Num (max a b)"
| "Math_max _ _ = NaN"

text \<open>
  Strings are lists of characters (bytes: a character outside ASCII is several of them).
  \<open>toLowerCase\<close> maps the letters \<open>A\<close> to \<open>Z\<close> (codes 65 to 90) to \<open>a\<close> to \<open>z\<close> and leaves
  every other character alone. JavaScript also lower-cases letters outside ASCII; of
  those only U+0130 and U+212A yield an ASCII letter (\<open>i\<close> followed by a combining dot,
  and \<open>k\<close>), and neither can complete one of the keywords searched for, which are
  lower-case ASCII, contain no \<open>k\<close> and never end in \<open>i\<close>. \<open>str_includes s kw\<close> is
  \<open>s.includes(kw)\<close>: it scans \<open>s\<close> from the left for a position where \<open>kw\<close> starts.
\<close>

definition toLowerCase_char :: "char \<Rightarrow> char" where
  "toLowerCase_char c =
     (if 65 \<le> (of_char c :: nat) \<and> (of_char c :: nat) \<le> 90
      then char_of ((of_char c :: nat) + 32) else c)"

definition toLowerCase :: "string \<Rightarrow> string" where
  "toLowerCase s = map toLowerCase_char s"

fun str_includes :: "string \<Rightarrow> string \<Rightarrow> bool" where
  "str_includes [] kw = (kw = [])"
| "str_includes (c # cs) kw = (take (length kw) (c # cs) = kw \<or> str_includes cs kw)"

section \<open>The shared types (types.ts)\<close>

datatype TextureMapType =
  Slot_map | Slot_normalMap | Slot_roughnessMap | Slot_metalnessMap | Slot_aoMap
  | Slot_displacementMap

text \<open>The string literal each member of the union type \<open>TextureMapType\<close> stands for.\<close>

fun slot_id :: "TextureMapType \<Rightarrow> string" where
  "slot_id Slot_map = ''map''"
| "slot_id Slot_normalMap = ''normalMap''"
| "slot_id Slot_roughnessMap = ''roughnessMap''"
| "slot_id Slot_metalnessMap = ''metalnessMap''"
| "slot_id Slot_aoMap = ''aoMap''"
| "slot_id Slot_displacementMap = ''displacementMap''"

text \<open>
  An object URL is modelled by the serial number of the \<open>URL.createObjectURL\<close> call that
  issued it: every call returns a URL different from all earlier ones.
\<close>

type_synonym object_url = nat

record TextureData =
  url :: object_url
  name :: string

record MaterialState =
  map_slot :: "TextureData option"
  normalMap :: "TextureData option"
  roughnessMap :: "TextureData option"
  metalnessMap :: "TextureData option"
  aoMap :: "TextureData option"
  displacementMap :: "TextureData option"

datatype ShapeType = Cube | Sphere | Plane

fun shape_id :: "ShapeType \<Rightarrow> string" where
  "shape_id Cube = ''cube''"
| "shape_id Sphere = ''sphere''"
| "shape_id Plane = ''plane''"

text \<open>
  \<open>ViewerSettings\<close>; the shape is a \<open>ShapeType\<close> in the typed component version and a
  plain string (a button's \<open>data-shape\<close> attribute) in the script version.
\<close>

record 'shape ViewerSettings =
  shape :: 'shape
  tiling :: number
  displacementScale :: number
  exposure :: number
  roughness :: number
  metalness :: number

text \<open>A dropped file: its name and an identifier of its content.\<close>

record File =
  file_name :: string
  file_data :: nat

section \<open>The browser's object URLs\<close>

text \<open>
  The registry logs the calls: \<open>issued\<close> lists the files of the \<open>createObjectURL\<close> calls
  (URL \<open>n\<close> is the one of the \<open>n\<close>-th call), \<open>revoked\<close> the arguments of the
  \<open>revokeObjectURL\<close> calls.
\<close>

record url_registry =
  issued :: "File list"
  revoked :: "object_url list"

definition createObjectURL :: "url_registry \<Rightarrow> File \<Rightarrow> object_url \<times> url_registry" where
  "createObjectURL reg file = (length (issued reg), reg\<lparr>issued := issued reg @ [file]\<rparr>)"

definition revokeObjectURL :: "url_registry \<Rightarrow> object_url \<Rightarrow> url_registry" where
  "revokeObjectURL reg u = reg\<lparr>revoked := revoked reg @ [u]\<rparr>"

definition live_urls :: "url_registry \<Rightarrow> object_url set" where
  "live_urls reg = {u. u < length (issued reg)} - set (revoked reg)"

section \<open>The rendering library's objects\<close>

text \<open>A geometry with its constructor arguments, as given in the source.\<close>

datatype geometry =
  SphereGeometry "real list" | PlaneGeometry "real list" | BoxGeometry "real list"

datatype wrapping = ClampToEdgeWrapping | RepeatWrapping

datatype color_space = NoColorSpace | SRGBColorSpace

section \<open>The component version (App.tsx, MaterialViewer)\<close>

record App =
  material :: MaterialState
  settings :: "ShapeType ViewerSettings"
  isDragging :: bool
  urls :: url_registry

definition App_initial :: App where
  "App_initial =
     \<lparr>material = \<lparr>map_slot = None, normalMap = None, roughnessMap = None,
                   metalnessMap = None, aoMap = None, displacementMap = None\<rparr>,
      settings = \<lparr>shape = Cube, tiling = Num 1, displacementScale = Num 0.05,
                   exposure = Num 1, roughness = Num 1, metalness = Num 0\<rparr>,
      isDragging = False,
      urls = \<lparr>issued = [], revoked = []\<rparr>\<rparr>"

definition matchTextureType :: "string \<Rightarrow> TextureMapType option" where
  "matchTextureType filename =
     (let f = toLowerCase filename in
      if str_includes f ''albedo'' \<or> str_includes f ''diffuse''
         \<or> str_includes f ''basecolor'' \<or> str_includes f ''color'' then Some Slot_map
      else if str_includes f ''normal'' \<or> str_includes f ''nrm'' \<or> str_includes f ''nm''
        then Some Slot_normalMap
      else if str_includes f ''roughness'' \<or> str_includes f ''rough''
         \<or> str_includes f ''rgh'' then Some Slot_roughnessMap
      else if str_includes f ''metal'' \<or> str_includes f ''mtl'' then Some Slot_metalnessMap
      else if str_includes f ''ao'' \<or> str_includes f ''ambientocclusion''
         \<or> str_includes f ''occlusion'' then Some Slot_aoMap
      else if str_includes f ''height'' \<or> str_includes f ''displacement''
         \<or> str_includes f ''disp'' then Some Slot_displacementMap
      else None)"

text \<open>\<open>material[type]\<close>, read and written.\<close>

fun slot_get :: "MaterialState \<Rightarrow> TextureMapType \<Rightarrow> TextureData option" where
  "slot_get m Slot_map = map_slot m"
| "slot_get m Slot_normalMap = normalMap m"
| "slot_get m Slot_roughnessMap = roughnessMap m"
| "slot_get m Slot_metalnessMap = metalnessMap m"
| "slot_get m Slot_aoMap = aoMap m"
| "slot_get m Slot_displacementMap = displacementMap m"

fun slot_set :: "MaterialState \<Rightarrow> TextureMapType \<Rightarrow> TextureData option \<Rightarrow> MaterialState" where
  "slot_set m Slot_map v = m\<lparr>map_slot := v\<rparr>"
| "slot_set m Slot_normalMap v = m\<lparr>normalMap := v\<rparr>"
| "slot_set m Slot_roughnessMap v = m\<lparr>roughnessMap := v\<rparr>"
| "slot_set m Slot_metalnessMap v = m\<lparr>metalnessMap := v\<rparr>"
| "slot_set m Slot_aoMap v = m\<lparr>aoMap := v\<rparr>"
| "slot_set m Slot_displacementMap v = m\<lparr>displacementMap := v\<rparr>"

text \<open>
  The body of the \<open>forEach\<close> in \<open>handleFiles\<close>, on the copy \<open>newMaterial\<close> and the
  browser's registry: a matched file revokes the URL its slot holds, if any, and takes
  the slot with a new URL.
\<close>

definition handleFile :: "MaterialState \<times> url_registry \<Rightarrow> File \<Rightarrow> MaterialState \<times> url_registry" where
  "handleFile acc file =
     (case acc of (newMaterial, reg) \<Rightarrow>
        (case matchTextureType (file_name file) of
           None \<Rightarrow> (newMaterial, reg)
         | Some type \<Rightarrow>
             (let reg1 = (case slot_get newMaterial type of
                            Some old \<Rightarrow> revokeObjectURL reg (url old)
                          | None \<Rightarrow> reg);
                  (u, reg2) = createObjectURL reg1 file
              in (slot_set newMaterial type (Some \<lparr>url = u, name = file_name file\<rparr>), reg2))))"

definition handleFiles :: "File list \<Rightarrow> App \<Rightarrow> App" where
  "handleFiles files app =
     (case foldl handleFile (material app, urls app) files of
        (newMaterial, reg) \<Rightarrow> app\<lparr>material := newMaterial, urls := reg\<rparr>)"

definition onDragOver :: "App \<Rightarrow> App" where
  "onDragOver app = app\<lparr>isDragging := True\<rparr>"

definition onDragLeave :: "App \<Rightarrow> App" where
  "onDragLeave app = app\<lparr>isDragging := False\<rparr>"

definition onDrop :: "File list \<Rightarrow> App \<Rightarrow> App" where
  "onDrop files app =
     (let app1 = app\<lparr>isDragging := False\<rparr>
      in if length files > 0 then handleFiles files app1 else app1)"

definition resetTexture :: "TextureMapType \<Rightarrow> App \<Rightarrow> App" where
  "resetTexture type app =
     (case slot_get (material app) type of
        Some held \<Rightarrow>
          app\<lparr>urls := revokeObjectURL (urls app) (url held),
              material := slot_set (material app) type None\<rparr>
      | None \<Rightarrow> app)"

text \<open>
  The events of the component version: drag and drop, the trash button of a slot, the
  three shape buttons and the three range inputs (each delivers the parsed value).
\<close>

datatype App_event =
  DragOver | DragLeave | Drop "File list" | ResetClick TextureMapType
  | ShapeClick ShapeType | TilingChange number | DisplacementChange number
  | ExposureChange number

fun App_step :: "App \<Rightarrow> App_event \<Rightarrow> App" where
  "App_step app DragOver = onDragOver app"
| "App_step app DragLeave = onDragLeave app"
| "App_step app (Drop files) = onDrop files app"
| "App_step app (ResetClick type) = resetTexture type app"
| "App_step app (ShapeClick sh) = app\<lparr>settings := (settings app)\<lparr>shape := sh\<rparr>\<rparr>"
| "App_step app (TilingChange v) = app\<lparr>settings := (settings app)\<lparr>tiling := v\<rparr>\<rparr>"
| "App_step app (DisplacementChange v) =
     app\<lparr>settings := (settings app)\<lparr>displacementScale := v\<rparr>\<rparr>"
| "App_step app (ExposureChange v) = app\<lparr>settings := (settings app)\<lparr>exposure := v\<rparr>\<rparr>"

definition App_run :: "App_event list \<Rightarrow> App \<Rightarrow> App" where
  "App_run evs app = foldl App_step app evs"

subsection \<open>MaterialViewer\<close>

text \<open>
  What a mesh component hands to the rendering library: the rotation, the geometry, the
  texture URLs by slot name with the repeat and colour space set on each, and the
  material's scalar properties (\<open>None\<close> where the component leaves the library's
  default).
\<close>

record mesh_props =
  rotation :: "real list"
  mp_geometry :: geometry
  mp_color :: "string option"
  mp_textures :: "(string \<times> object_url \<times> number \<times> color_space) list"
  mp_displacementScale :: "number option"
  mp_roughness :: number
  mp_metalness :: number

definition mapConfig :: "MaterialState \<Rightarrow> (string \<times> object_url) list" where
  "mapConfig m =
     (case map_slot m of Some t \<Rightarrow> [(''map'', url t)] | None \<Rightarrow> [])
     @ (case normalMap m of Some t \<Rightarrow> [(''normalMap'', url t)] | None \<Rightarrow> [])
     @ (case roughnessMap m of Some t \<Rightarrow> [(''roughnessMap'', url t)] | None \<Rightarrow> [])
     @ (case metalnessMap m of Some t \<Rightarrow> [(''metalnessMap'', url t)] | None \<Rightarrow> [])
     @ (case aoMap m of Some t \<Rightarrow> [(''aoMap'', url t)] | None \<Rightarrow> [])
     @ (case displacementMap m of Some t \<Rightarrow> [(''displacementMap'', url t)] | None \<Rightarrow> [])"

fun Geometry :: "ShapeType \<Rightarrow> geometry" where
  "Geometry Sphere = SphereGeometry [1, 128, 128]"
| "Geometry Plane = PlaneGeometry [2, 2, 512, 512]"
| "Geometry Cube = BoxGeometry [1.5, 1.5, 1.5, 128, 128, 128]"

definition mesh_rotation :: "bool \<Rightarrow> real list" where
  "mesh_rotation is_plane = (if is_plane then [- pi / 2, 0, 0] else [0, 0, 0])"

definition PBRMeshInternal :: "MaterialState \<Rightarrow> ShapeType ViewerSettings \<Rightarrow> mesh_props" where
  "PBRMeshInternal m s =
     \<lparr>rotation = mesh_rotation (shape s = Plane),
      mp_geometry = Geometry (shape s),
      mp_color = None,
      mp_textures =
        map (\<lambda>(key, u). (key, u, tiling s,
                          if key = ''map'' then SRGBColorSpace else NoColorSpace))
            (mapConfig m),
      mp_displacementScale = Some (displacementScale s),
      mp_roughness = (if roughnessMap m \<noteq> None then Num 1 else roughness s),
      mp_metalness = (if metalnessMap m \<noteq> None then Num 1 else metalness s)\<rparr>"

fun Geometry_fallback :: "ShapeType \<Rightarrow> geometry" where
  "Geometry_fallback Sphere = SphereGeometry [1, 32, 32]"
| "Geometry_fallback Plane = PlaneGeometry [2, 2]"
| "Geometry_fallback Cube = BoxGeometry [1.5, 1.5, 1.5]"

definition FallbackMesh :: "ShapeType ViewerSettings \<Rightarrow> mesh_props" where
  "FallbackMesh s =
     \<lparr>rotation = mesh_rotation (shape s = Plane),
      mp_geometry = Geometry_fallback (shape s),
      mp_color = Some ''#27272a'',
      mp_textures = [],
      mp_displacementScale = None,
      mp_roughness = Num 0.8,
      mp_metalness = Num 0.2\<rparr>"

definition hasTextures :: "MaterialState \<Rightarrow> bool" where
  "hasTextures m =
     list_ex (\<lambda>v. v \<noteq> None)
       [map_slot m, normalMap m, roughnessMap m, metalnessMap m, aoMap m, displacementMap m]"

definition MaterialViewer :: "MaterialState \<Rightarrow> ShapeType ViewerSettings \<Rightarrow> mesh_props" where
  "MaterialViewer m s = (if hasTextures m then PBRMeshInternal m s else FallbackMesh s)"

section \<open>The script version (vanilla DOM)\<close>

subsection \<open>State\<close>

text \<open>
  A texture object of the rendering library, with the properties the script writes, the
  number of \<open>dispose()\<close> calls it has received and the URL it is loaded from.
\<close>

record Texture =
  wrapS :: wrapping
  wrapT :: wrapping
  tex_repeat :: "number \<times> number"
  colorSpace :: color_space
  needsUpdate :: bool
  dispose_calls :: nat
  source_url :: object_url

definition new_Texture :: "object_url \<Rightarrow> Texture" where
  "new_Texture u =
     \<lparr>wrapS = ClampToEdgeWrapping, wrapT = ClampToEdgeWrapping,
      tex_repeat = (Num 1, Num 1), colorSpace = NoColorSpace, needsUpdate = False,
      dispose_calls = 0, source_url = u\<rparr>"

text \<open>
  The mesh's \<open>MeshStandardMaterial\<close>: the colour, the scalar properties and, by slot name,
  the address of the texture object assigned (\<open>mat[slot.id]\<close>).
\<close>

record StandardMaterial =
  color :: nat
  mat_roughness :: number
  mat_metalness :: number
  mat_displacementScale :: number
  mat_maps :: "string \<Rightarrow> nat option"
  mat_needsUpdate :: bool

record Mesh =
  mesh_geometry :: geometry
  mesh_material :: StandardMaterial
  rotation_x :: real

text \<open>
  A texture load in flight: \<open>textureLoader.load\<close> has created the texture object and the
  callback, which closes over \<open>type\<close> and \<open>file\<close>, has not run yet.
\<close>

record pending_load =
  load_type :: string
  load_file :: File
  load_texture :: nat

datatype param = P_tiling | P_displacementScale | P_exposure | P_roughness | P_metalness

text \<open>
  The global \<open>state\<close> object, the globals \<open>mesh\<close>, \<open>renderer\<close> and \<open>controls\<close> as
  far as the script writes them, the texture objects by address, the loads in
  flight, the browser's URL registry, and what the page displays: the rendered slot list
  (label, file name shown, whether a remove button is shown) and the values shown by the
  range and number inputs of each parameter.
\<close>

record State =
  state_material :: "string \<Rightarrow> nat option"
  state_settings :: "string ViewerSettings"
  state_textureFiles :: "string \<Rightarrow> File option"
  mesh :: "Mesh option"
  heap :: "nat \<Rightarrow> Texture"
  heap_next :: nat
  pending_loads :: "pending_load list"
  browser_urls :: url_registry
  toneMappingExposure :: number
  autoRotate :: bool
  texture_slots :: "(string \<times> string \<times> bool) list"
  slider_value :: "param \<Rightarrow> number"
  input_value :: "param \<Rightarrow> number"

definition slots :: "(string \<times> string) list" where
  "slots =
     [(''map'', ''Albedo / Map''), (''normalMap'', ''Normal''),
      (''roughnessMap'', ''Roughness''), (''metalnessMap'', ''Metallic''),
      (''aoMap'', ''AO''), (''displacementMap'', ''Height'')]"

text \<open>\<open>state.settings[p.id]\<close>, read and written, for the five entries of \<open>params\<close>.\<close>

fun setting_get :: "param \<Rightarrow> 'shape ViewerSettings \<Rightarrow> number" where
  "setting_get P_tiling s = tiling s"
| "setting_get P_displacementScale s = displacementScale s"
| "setting_get P_exposure s = exposure s"
| "setting_get P_roughness s = roughness s"
| "setting_get P_metalness s = metalness s"

fun setting_set :: "param \<Rightarrow> number \<Rightarrow> 'shape ViewerSettings \<Rightarrow> 'shape ViewerSettings" where
  "setting_set P_tiling v s = s\<lparr>tiling := v\<rparr>"
| "setting_set P_displacementScale v s = s\<lparr>displacementScale := v\<rparr>"
| "setting_set P_exposure v s = s\<lparr>exposure := v\<rparr>"
| "setting_set P_roughness v s = s\<lparr>roughness := v\<rparr>"
| "setting_set P_metalness v s = s\<lparr>metalness := v\<rparr>"

definition State_initial :: State where
  "State_initial =
     \<lparr>state_material = (\<lambda>_. None),
      state_settings = \<lparr>shape = ''cube'', tiling = Num 1, displacementScale = Num 0.05,
                         exposure = Num 1, roughness = Num 1, metalness = Num 0\<rparr>,
      state_textureFiles = (\<lambda>_. None),
      mesh = None,
      heap = (\<lambda>_. new_Texture 0),
      heap_next = 0,
      pending_loads = [],
      browser_urls = \<lparr>issued = [], revoked = []\<rparr>,
      toneMappingExposure = Num 1,
      autoRotate = False,
      texture_slots = [],
      slider_value = (\<lambda>_. NaN),
      input_value = (\<lambda>_. NaN)\<rparr>"

subsection \<open>Rendering\<close>

text \<open>
  One round of the \<open>slots.forEach\<close> in \<open>updateMaterial\<close>, on the texture objects and the
  material: a loaded slot has its texture configured and assigned, an empty one is
  cleared on the material.
\<close>

definition apply_slot ::
  "State \<Rightarrow> (nat \<Rightarrow> Texture) \<times> StandardMaterial \<Rightarrow> string \<times> string
     \<Rightarrow> (nat \<Rightarrow> Texture) \<times> StandardMaterial" where
  "apply_slot st acc slot =
     (case acc of (h, mat) \<Rightarrow>
        (case state_material st (fst slot) of
           Some tex \<Rightarrow>
             (h(tex := (h tex)\<lparr>wrapS := RepeatWrapping, wrapT := RepeatWrapping,
                   tex_repeat := (tiling (state_settings st), tiling (state_settings st)),
                   colorSpace := (if fst slot = ''map'' then SRGBColorSpace else NoColorSpace),
                   needsUpdate := True\<rparr>),
              mat\<lparr>mat_maps := (mat_maps mat)(fst slot := Some tex)\<rparr>)
         | None \<Rightarrow> (h, mat\<lparr>mat_maps := (mat_maps mat)(fst slot := None)\<rparr>)))"

definition updateMaterial :: "State \<Rightarrow> State" where
  "updateMaterial st =
     (case mesh st of
        None \<Rightarrow> st
      | Some m \<Rightarrow>
          (let hasTex = list_ex (\<lambda>slot. state_material st (fst slot) \<noteq> None) slots;
               mat1 = (mesh_material m)
                 \<lparr>mat_displacementScale := displacementScale (state_settings st),
                  mat_roughness := roughness (state_settings st),
                  mat_metalness := metalness (state_settings st)\<rparr>;
               (h, mat2) = foldl (apply_slot st) (heap st, mat1) slots;
               mat3 = mat2\<lparr>color := (if state_material st ''map'' = None
                                        then 0x27272a else 0xffffff)\<rparr>;
               mat4 = mat3\<lparr>mat_needsUpdate := True\<rparr>
           in st\<lparr>mesh := Some (m\<lparr>mesh_material := mat4\<rparr>), heap := h,
                 autoRotate := \<not> hasTex\<rparr>))"

definition updateGeometry :: "State \<Rightarrow> State" where
  "updateGeometry st =
     (let sh = shape (state_settings st);
          geom = (if sh = ''sphere'' then SphereGeometry [1, 128, 128]
                  else if sh = ''plane'' then PlaneGeometry [2, 2, 512, 512]
                  else BoxGeometry [1.5, 1.5, 1.5, 128, 128, 128]);
          mat = \<lparr>color = 0xffffff,
                 mat_roughness = roughness (state_settings st),
                 mat_metalness = metalness (state_settings st),
                 mat_displacementScale = Num 1,
                 mat_maps = (\<lambda>_. None),
                 mat_needsUpdate = False\<rparr>;
          m = \<lparr>mesh_geometry = geom, mesh_material = mat,
               rotation_x = (if sh = ''plane'' then - pi / 2 else 0)\<rparr>
      in updateMaterial (st\<lparr>mesh := Some m\<rparr>))"

definition renderTextureSlots :: "State \<Rightarrow> State" where
  "renderTextureSlots st =
     st\<lparr>texture_slots :=
          map (\<lambda>slot. case state_textureFiles st (fst slot) of
                         Some file \<Rightarrow> (snd slot, file_name file, True)
                       | None \<Rightarrow> (snd slot, ''Not loaded'', False))
              slots\<rparr>"

subsection \<open>Textures\<close>

definition matchTextureType_vanilla :: "string \<Rightarrow> string option" where
  "matchTextureType_vanilla filename =
     (let f = toLowerCase filename in
      if str_includes f ''albedo'' \<or> str_includes f ''diffuse''
         \<or> str_includes f ''basecolor'' \<or> str_includes f ''color'' then Some ''map''
      else if str_includes f ''normal'' \<or> str_includes f ''nrm'' \<or> str_includes f ''nm''
        then Some ''normalMap''
      else if str_includes f ''roughness'' \<or> str_includes f ''rough''
         \<or> str_includes f ''rgh'' then Some ''roughnessMap''
      else if str_includes f ''metal'' \<or> str_includes f ''mtl'' then Some ''metalnessMap''
      else if str_includes f ''ao'' \<or> str_includes f ''ambientocclusion''
         \<or> str_includes f ''occlusion'' then Some ''aoMap''
      else if str_includes f ''height'' \<or> str_includes f ''displacement''
         \<or> str_includes f ''disp'' then Some ''displacementMap''
      else None)"

definition dispose :: "nat \<Rightarrow> State \<Rightarrow> State" where
  "dispose tex st =
     st\<lparr>heap := (heap st)(tex := (heap st tex)\<lparr>dispose_calls := Suc (dispose_calls (heap st tex))\<rparr>)\<rparr>"

text \<open>
  The body of the \<open>forEach\<close> in \<open>handleFiles\<close>: a matched file disposes the texture its
  slot holds at that moment, if any, and starts a load; the slot itself is written only
  when the load's callback runs.
\<close>

definition handleFile_vanilla :: "State \<Rightarrow> File \<Rightarrow> State" where
  "handleFile_vanilla st file =
     (case matchTextureType_vanilla (file_name file) of
        None \<Rightarrow> st
      | Some type \<Rightarrow>
          (let st1 = (case state_material st type of
                        Some held \<Rightarrow> dispose held st
                      | None \<Rightarrow> st);
               (u, reg) = createObjectURL (browser_urls st1) file;
               tex = heap_next st1
           in st1\<lparr>browser_urls := reg,
                  heap := (heap st1)(tex := new_Texture u),
                  heap_next := Suc tex,
                  pending_loads := pending_loads st1
                     @ [\<lparr>load_type = type, load_file = file, load_texture = tex\<rparr>]\<rparr>))"

definition handleFiles_vanilla :: "File list \<Rightarrow> State \<Rightarrow> State" where
  "handleFiles_vanilla files st = foldl handleFile_vanilla st files"

text \<open>The callback given to \<open>textureLoader.load\<close>, run when the image has loaded.\<close>

definition onLoad :: "pending_load \<Rightarrow> State \<Rightarrow> State" where
  "onLoad p st =
     updateMaterial (renderTextureSlots
       (st\<lparr>state_material := (state_material st)(load_type p := Some (load_texture p)),
           state_textureFiles := (state_textureFiles st)(load_type p := Some (load_file p))\<rparr>))"

text \<open>
  The \<open>i\<close>-th load in flight completes: it leaves the list and its callback runs. The
  browser decides which load completes next.
\<close>

definition load_done :: "nat \<Rightarrow> State \<Rightarrow> State" where
  "load_done i st =
     (if i < length (pending_loads st)
      then onLoad (pending_loads st ! i)
             (st\<lparr>pending_loads := take i (pending_loads st) @ drop (Suc i) (pending_loads st)\<rparr>)
      else st)"

definition resetTexture_vanilla :: "string \<Rightarrow> State \<Rightarrow> State" where
  "resetTexture_vanilla type st =
     (case state_material st type of
        Some held \<Rightarrow>
          updateMaterial (renderTextureSlots
            ((dispose held st)
               \<lparr>state_material := (state_material st)(type := None),
                state_textureFiles := (state_textureFiles st)(type := None)\<rparr>))
      | None \<Rightarrow> st)"

subsection \<open>Controls (initUI)\<close>

definition updateAll :: "param \<Rightarrow> number \<Rightarrow> State \<Rightarrow> State" where
  "updateAll p val st =
     (let st1 = st\<lparr>state_settings := setting_set p val (state_settings st)\<rparr>
      in if p = P_exposure then st1\<lparr>toneMappingExposure := val\<rparr> else updateMaterial st1)"

text \<open>
  The two \<open>input\<close> listeners of a parameter. Each takes the result of \<open>parseFloat\<close> on the
  element's text. \<open>bounds p\<close> is \<open>(parseFloat(slider.min), parseFloat(slider.max))\<close> for the
  range input of \<open>p\<close>; these attributes are given by the page's markup.
\<close>

definition slider_input :: "param \<Rightarrow> number \<Rightarrow> State \<Rightarrow> State" where
  "slider_input p val st = updateAll p val (st\<lparr>input_value := (input_value st)(p := val)\<rparr>)"

definition text_input :: "(param \<Rightarrow> number \<times> number) \<Rightarrow> param \<Rightarrow> number \<Rightarrow> State \<Rightarrow> State" where
  "text_input bounds p parsed st =
     (if isNaN parsed then st
      else
        (let mn = fst (bounds p);
             mx = snd (bounds p);
             val = Math_max mn (Math_min mx parsed)
         in updateAll p val (st\<lparr>slider_value := (slider_value st)(p := val)\<rparr>)))"

definition shape_click :: "string \<Rightarrow> State \<Rightarrow> State" where
  "shape_click sh st = updateGeometry (st\<lparr>state_settings := (state_settings st)\<lparr>shape := sh\<rparr>\<rparr>)"

definition initThree :: "State \<Rightarrow> State" where
  "initThree st =
     updateGeometry
       (st\<lparr>toneMappingExposure := exposure (state_settings st), autoRotate := True\<rparr>)"

definition initUI :: "State \<Rightarrow> State" where
  "initUI st =
     (renderTextureSlots st)
       \<lparr>slider_value := (\<lambda>p. setting_get p (state_settings st)),
        input_value := (\<lambda>p. setting_get p (state_settings st))\<rparr>"

definition State_start :: State where
  "State_start = initUI (initThree State_initial)"

text \<open>
  The events of the script version: a click on a shape button (with its \<open>data-shape\<close>), an
  \<open>input\<close> event of a parameter's range input or number input (with the parsed text), a
  drop of files, the completion of a load in flight, and a click on a slot's remove
  button.
\<close>

datatype State_event =
  ShapeClick_vanilla string | SliderInput param number | TextInput param number
  | Drop_vanilla "File list" | LoadDone nat | ResetClick_vanilla string

fun State_step :: "(param \<Rightarrow> number \<times> number) \<Rightarrow> State \<Rightarrow> State_event \<Rightarrow> State" where
  "State_step bounds st (ShapeClick_vanilla sh) = shape_click sh st"
| "State_step bounds st (SliderInput p v) = slider_input p v st"
| "State_step bounds st (TextInput p v) = text_input bounds p v st"
| "State_step bounds st (Drop_vanilla files) =
     (if length files > 0 then handleFiles_vanilla files st else st)"
| "State_step bounds st (LoadDone i) = load_done i st"
| "State_step bounds st (ResetClick_vanilla type) = resetTexture_vanilla type st"

definition State_run :: "(param \<Rightarrow> number \<times> number) \<Rightarrow> State_event list \<Rightarrow> State \<Rightarrow> State" where
  "State_run bounds evs st = foldl (State_step bounds) st evs"

section \<open>Notions used to state the properties\<close>

text \<open>\<open>kw\<close> occurs in \<open>s\<close> as a substring.\<close>

definition occurs_in :: "string \<Rightarrow> string \<Rightarrow> bool" where
  "occurs_in kw s = (\<exists>pre suf. s = pre @ kw @ suf)"

text \<open>
  The keyword groups in the order they are consulted, each with its texture role, and
  the role of the first group one of whose keywords occurs in the lower-cased file name.
\<close>

definition keyword_groups :: "(TextureMapType \<times> string list) list" where
  "keyword_groups =
     [(Slot_map, [''albedo'', ''diffuse'', ''basecolor'', ''color'']),
      (Slot_normalMap, [''normal'', ''nrm'', ''nm'']),
      (Slot_roughnessMap, [''roughness'', ''rough'', ''rgh'']),
      (Slot_metalnessMap, [''metal'', ''mtl'']),
      (Slot_aoMap, [''ao'', ''ambientocclusion'', ''occlusion'']),
      (Slot_displacementMap, [''height'', ''displacement'', ''disp''])]"

definition first_matching_group :: "string \<Rightarrow> TextureMapType option" where
  "first_matching_group filename =
     map_option fst
       (find (\<lambda>group. \<exists>kw \<in> set (snd group). occurs_in kw (toLowerCase filename))
          keyword_groups)"

definition slot_names :: "string list" where
  "slot_names =
     [''map'', ''normalMap'', ''roughnessMap'', ''metalnessMap'', ''aoMap'', ''displacementMap'']"

text \<open>A value lies between the two bounds of a range input; \<open>NaN\<close> never does.\<close>

fun in_range :: "number \<times> number \<Rightarrow> number \<Rightarrow> bool" where
  "in_range (Num lo, Num hi) (Num x) = (lo \<le> x \<and> x \<le> hi)"
| "in_range _ _ = False"

text \<open>The two bounds of a range input are numbers and the lower is not above the upper.\<close>

fun proper_bounds :: "number \<times> number \<Rightarrow> bool" where
  "proper_bounds (Num lo, Num hi) = (lo \<le> hi)"
| "proper_bounds _ = False"

text \<open>The material currently on the script version's mesh, if there is a mesh.\<close>

definition rendered_material :: "State \<Rightarrow> StandardMaterial option" where
  "rendered_material st = map_option mesh_material (mesh st)"

text \<open>
  Bounds of the five range inputs used in the examples: those of the component version's
  three range inputs, and the unit interval for roughness and metalness.
\<close>

fun example_bounds :: "param \<Rightarrow> number \<times> number" where
  "example_bounds P_tiling = (Num 0.1, Num 10)"
| "example_bounds P_displacementScale = (Num 0, Num 1)"
| "example_bounds P_exposure = (Num 0, Num 2)"
| "example_bounds P_roughness = (Num 0, Num 1)"
| "example_bounds P_metalness = (Num 0, Num 1)"

text \<open>
  The URL a slot of the component version holds, and the resource reading of one asset
  per slot: only issued URLs have been revoked, the URLs held by slots are exactly the
  live ones (issued and not revoked), and no two slots hold the same URL.
\<close>

definition slot_url :: "MaterialState \<Rightarrow> TextureMapType \<Rightarrow> object_url option" where
  "slot_url m t = map_option url (slot_get m t)"

definition one_asset_per_slot :: "MaterialState \<Rightarrow> url_registry \<Rightarrow> bool" where
  "one_asset_per_slot m reg \<longleftrightarrow>
     (\<forall>u \<in> set (revoked reg). u < length (issued reg))
     \<and> (\<forall>t u. slot_url m t = Some u \<longrightarrow> u \<in> live_urls reg)
     \<and> (\<forall>u \<in> live_urls reg. \<exists>t. slot_url m t = Some u)
     \<and> (\<forall>t t' u. slot_url m t = Some u \<and> slot_url m t' = Some u \<longrightarrow> t = t')"

text \<open>The three shape names.\<close>

definition shape_ids :: "string list" where
  "shape_ids = [''cube'', ''sphere'', ''plane'']"

text \<open>Files used in the examples.\<close>

definition color_png :: File where
  "color_png = \<lparr>file_name = ''wood_color.png'', file_data = 0\<rparr>"

definition readme_txt :: File where
  "readme_txt = \<lparr>file_name = ''readme.txt'', file_data = 1\<rparr>"

definition metal_png :: File where
  "metal_png = \<lparr>file_name = ''wood_metal.png'', file_data = 2\<rparr>"

definition brick_color_png :: File where
  "brick_color_png = \<lparr>file_name = ''brick_color.png'', file_data = 3\<rparr>"

section \<open>The file name classifier\<close>

lemma toLowerCase_char_idem: "toLowerCase_char (toLowerCase_char c) = toLowerCase_char c"
  by (simp add: toLowerCase_char_def)

lemma toLowerCase_idem: "toLowerCase (toLowerCase s) = toLowerCase s"
  by (simp add: toLowerCase_def toLowerCase_char_idem)

lemma str_includes_iff: "str_includes s kw \<longleftrightarrow> occurs_in kw s"
  unfolding occurs_in_def
proof (induction s)
  case Nil
  show ?case by auto
next
  case (Cons c cs)
  have starts: "take (length kw) (c # cs) = kw \<longleftrightarrow> (\<exists>suf. c # cs = kw @ suf)"
    by (metis append_eq_conv_conj)
  have "(\<exists>pre suf. c # cs = pre @ kw @ suf) \<longleftrightarrow>
        (\<exists>suf. c # cs = kw @ suf) \<or> (\<exists>pre suf. cs = pre @ kw @ suf)"
    by (metis list.inject append_Cons self_append_conv2 neq_Nil_conv)
  with starts Cons show ?case by simp
qed

lemma match_first_group: "matchTextureType f = first_matching_group f"
  by (simp add: matchTextureType_def first_matching_group_def keyword_groups_def
      str_includes_iff Let_def del: str_includes.simps)

lemma match_None_iff:
  "matchTextureType f = None \<longleftrightarrow>
     (\<forall>group \<in> set keyword_groups. \<forall>kw \<in> set (snd group). \<not> occurs_in kw (toLowerCase f))"
  by (simp add: matchTextureType_def keyword_groups_def str_includes_iff Let_def
      del: str_includes.simps)

lemma vanilla_match: "matchTextureType_vanilla f = map_option slot_id (matchTextureType f)"
  by (simp add: matchTextureType_def matchTextureType_vanilla_def Let_def
      del: str_includes.simps)

lemma vanilla_match_None: "matchTextureType_vanilla f = None \<longleftrightarrow> matchTextureType f = None"
  by (simp add: vanilla_match)

lemma slot_id_names: "slot_id r \<in> set slot_names"
  by (cases r) (simp_all add: slot_names_def)

lemma slot_id_inj: "slot_id a = slot_id b \<longleftrightarrow> a = b"
  by (cases a; cases b) simp_all

text \<open>
  C1. Both classifiers return the role of the first keyword group, in the fixed order
  albedo/diffuse/basecolor/color, normal/nrm/nm, roughness/rough/rgh, metal/mtl,
  ao/ambientocclusion/occlusion, height/displacement/disp, that has a keyword occurring
  in the lower-cased file name; they return null exactly when no keyword of any group
  occurs in it; and the script version, which returns strings, never returns anything
  but one of the six slot names.
\<close>

theorem matchTextureType_first_group:
  "matchTextureType f = first_matching_group f
   \<and> (matchTextureType f = None \<longleftrightarrow>
        (\<forall>group \<in> set keyword_groups. \<forall>kw \<in> set (snd group).
           \<not> occurs_in kw (toLowerCase f)))
   \<and> matchTextureType_vanilla f = map_option slot_id (first_matching_group f)
   \<and> (matchTextureType_vanilla f = None \<longleftrightarrow>
        (\<forall>group \<in> set keyword_groups. \<forall>kw \<in> set (snd group).
           \<not> occurs_in kw (toLowerCase f)))
   \<and> (\<forall>r. matchTextureType_vanilla f = Some r \<longrightarrow> r \<in> set slot_names)"
proof -
  have "r \<in> set slot_names" if "matchTextureType_vanilla f = Some r" for r
    using that slot_id_names by (auto simp: vanilla_match)
  then show ?thesis
    using match_first_group [of f] match_None_iff [of f] vanilla_match [of f]
      vanilla_match_None [of f]
    by simp
qed

theorem matchTextureType_first_group_witness:
  "matchTextureType ''Wood_NRM_metal.PNG'' = Some Slot_normalMap
   \<and> first_matching_group ''Wood_NRM_metal.PNG'' = Some Slot_normalMap
   \<and> matchTextureType_vanilla ''Wood_NRM_metal.PNG'' = Some ''normalMap''
   \<and> ''normalMap'' \<in> set slot_names
   \<and> first_matching_group ''readme.txt'' = None
   \<and> matchTextureType_vanilla ''readme.txt'' = None
   \<and> \<not> occurs_in ''ao'' (toLowerCase ''readme.txt'')"
proof -
  have a: "matchTextureType ''Wood_NRM_metal.PNG'' = Some Slot_normalMap"
    by code_simp
  have b: "matchTextureType ''readme.txt'' = None"
    by code_simp
  from a matchTextureType_first_group [of "''Wood_NRM_metal.PNG''"]
  have 1: "first_matching_group ''Wood_NRM_metal.PNG'' = Some Slot_normalMap
           \<and> matchTextureType_vanilla ''Wood_NRM_metal.PNG'' = Some ''normalMap''
           \<and> ''normalMap'' \<in> set slot_names"
    by simp
  from b matchTextureType_first_group [of "''readme.txt''"]
  have 2: "first_matching_group ''readme.txt'' = None
           \<and> matchTextureType_vanilla ''readme.txt'' = None
           \<and> \<not> occurs_in ''ao'' (toLowerCase ''readme.txt'')"
    by (auto simp: keyword_groups_def)
  from a 1 2 show ?thesis by simp
qed

text \<open>
  C2. The two classifiers are equivalent: on every file name the script version returns
  the slot name of the role the component version returns, and null when it returns null
  (different roles have different slot names).
\<close>

theorem matchTextureType_versions_agree:
  "matchTextureType_vanilla f = map_option slot_id (matchTextureType f)
   \<and> (matchTextureType_vanilla f = None \<longleftrightarrow> matchTextureType f = None)
   \<and> (slot_id a = slot_id b \<longleftrightarrow> a = b)"
  by (simp add: vanilla_match slot_id_inj)

text \<open>
  C10. The classifier is case-insensitive: in both versions a file name and its
  lower-case form are classified alike.
\<close>

theorem matchTextureType_case_insensitive:
  "matchTextureType (toLowerCase f) = matchTextureType f
   \<and> matchTextureType_vanilla (toLowerCase f) = matchTextureType_vanilla f"
  by (simp add: matchTextureType_def matchTextureType_vanilla_def toLowerCase_idem)

section \<open>Evaluation and frame lemmas\<close>

lemmas example_files = color_png_def readme_txt_def metal_png_def brick_color_png_def

lemmas App_defs = App_run_def onDrop_def handleFiles_def handleFile_def matchTextureType_def
  toLowerCase_def toLowerCase_char_def createObjectURL_def revokeObjectURL_def App_initial_def
  resetTexture_def Let_def

lemmas State_defs = State_run_def handleFiles_vanilla_def handleFile_vanilla_def
  matchTextureType_vanilla_def toLowerCase_def toLowerCase_char_def createObjectURL_def
  State_start_def State_initial_def Let_def initUI_def initThree_def updateGeometry_def
  updateMaterial_def renderTextureSlots_def slots_def apply_slot_def load_done_def onLoad_def
  resetTexture_vanilla_def dispose_def new_Texture_def rendered_material_def

lemma foldl_apply_slot_dispose:
  "dispose_calls (fst (foldl (apply_slot st) (h, mat) xs) t) = dispose_calls (h t)"
  by (induction xs arbitrary: h mat) (auto simp: apply_slot_def split: option.splits)

lemma foldl_apply_slot_scalars:
  "mat_roughness (snd (foldl (apply_slot st) (h, mat) xs)) = mat_roughness mat \<and>
   mat_metalness (snd (foldl (apply_slot st) (h, mat) xs)) = mat_metalness mat \<and>
   mat_displacementScale (snd (foldl (apply_slot st) (h, mat) xs)) = mat_displacementScale mat"
  by (induction xs arbitrary: h mat) (auto simp: apply_slot_def split: option.splits)

lemma updateMaterial_frame:
  "state_material (updateMaterial st) = state_material st"
  "state_settings (updateMaterial st) = state_settings st"
  "state_textureFiles (updateMaterial st) = state_textureFiles st"
  "browser_urls (updateMaterial st) = browser_urls st"
  "pending_loads (updateMaterial st) = pending_loads st"
  "heap_next (updateMaterial st) = heap_next st"
  "texture_slots (updateMaterial st) = texture_slots st"
  "toneMappingExposure (updateMaterial st) = toneMappingExposure st"
  "slider_value (updateMaterial st) = slider_value st"
  "input_value (updateMaterial st) = input_value st"
  by (simp_all add: updateMaterial_def Let_def case_prod_beta split: option.splits)

lemma updateMaterial_dispose:
  "dispose_calls (heap (updateMaterial st) t) = dispose_calls (heap st t)"
  by (simp add: updateMaterial_def Let_def case_prod_beta foldl_apply_slot_dispose
      split: option.splits)

lemma updateMaterial_scalars:
  "mesh st = Some m \<Longrightarrow>
   map_option mat_roughness (rendered_material (updateMaterial st)) = Some (roughness (state_settings st))
  \<and> map_option mat_metalness (rendered_material (updateMaterial st)) = Some (metalness (state_settings st))
  \<and> map_option mat_displacementScale (rendered_material (updateMaterial st)) = Some (displacementScale (state_settings st))"
  by (simp add: rendered_material_def updateMaterial_def Let_def case_prod_beta foldl_apply_slot_scalars)

lemma updateMaterial_geometry:
  "map_option mesh_geometry (mesh (updateMaterial st)) = map_option mesh_geometry (mesh st)"
  by (simp add: updateMaterial_def Let_def case_prod_beta split: option.splits)

lemma updateGeometry_geometry:
  "map_option mesh_geometry (mesh (updateGeometry st)) =
     Some (if shape (state_settings st) = ''sphere'' then SphereGeometry [1, 128, 128]
           else if shape (state_settings st) = ''plane'' then PlaneGeometry [2, 2, 512, 512]
           else BoxGeometry [1.5, 1.5, 1.5, 128, 128, 128])"
  by (simp add: updateGeometry_def Let_def updateMaterial_geometry)

lemma updateGeometry_settings: "state_settings (updateGeometry st) = state_settings st"
  by (simp add: updateGeometry_def Let_def updateMaterial_frame)

lemma slot_get_set: "slot_get (slot_set m t v) t' = (if t' = t then v else slot_get m t')"
  by (cases t; cases t') simp_all

lemma updateMaterial_mesh_None: "mesh (updateMaterial st) = None \<longleftrightarrow> mesh st = None"
  by (simp add: updateMaterial_def Let_def case_prod_beta split: option.splits)

lemma handleFile_vanilla_settings:
  "state_settings (handleFile_vanilla st f) = state_settings st"
  by (simp add: handleFile_vanilla_def dispose_def Let_def case_prod_beta
      split: option.splits)

lemma handleFiles_vanilla_settings:
  "state_settings (handleFiles_vanilla files st) = state_settings st"
  unfolding handleFiles_vanilla_def
  by (induction files arbitrary: st) (simp_all add: handleFile_vanilla_settings)

lemma load_done_settings: "state_settings (load_done i st) = state_settings st"
  by (simp add: load_done_def onLoad_def updateMaterial_frame renderTextureSlots_def)

lemma resetTexture_vanilla_settings:
  "state_settings (resetTexture_vanilla ty st) = state_settings st"
  by (simp add: resetTexture_vanilla_def updateMaterial_frame renderTextureSlots_def
      dispose_def split: option.splits)

lemma updateAll_settings:
  "state_settings (updateAll p v st) = setting_set p v (state_settings st)"
  by (simp add: updateAll_def Let_def updateMaterial_frame)

lemma setting_get_set:
  "setting_get q (setting_set p v s) = (if q = p then v else setting_get q s)"
  by (cases p; cases q) simp_all

lemma shape_setting_set: "shape (setting_set p v s) = shape s"
  by (cases p) simp_all

lemma setting_get_shape_update: "setting_get q (s\<lparr>shape := sh\<rparr>) = setting_get q s"
  by (cases q) simp_all

lemma State_step_shape:
  "shape (state_settings (State_step bounds st ev)) =
     (case ev of ShapeClick_vanilla sh \<Rightarrow> sh | _ \<Rightarrow> shape (state_settings st))"
  by (cases ev)
    (simp_all add: shape_click_def updateGeometry_settings slider_input_def text_input_def
      updateAll_settings shape_setting_set Let_def handleFiles_vanilla_settings
      load_done_settings resetTexture_vanilla_settings)

lemma in_range_clamp:
  assumes "proper_bounds b" "\<not> isNaN v"
  shows "in_range b (Math_max (fst b) (Math_min (snd b) v))"
  using assms by (cases b rule: proper_bounds.cases; cases v) (auto simp: isNaN_def)

lemma State_step_in_range:
  assumes bounds: "\<forall>p. proper_bounds (bounds p)"
    and inv: "\<forall>p. in_range (bounds p) (setting_get p (state_settings st))"
    and slider: "\<And>p v. ev = SliderInput p v \<Longrightarrow> in_range (bounds p) v"
  shows "in_range (bounds q) (setting_get q (state_settings (State_step bounds st ev)))"
proof (cases ev)
  case (ShapeClick_vanilla sh)
  then show ?thesis
    using inv by (simp add: shape_click_def updateGeometry_settings setting_get_shape_update)
next
  case (SliderInput p v)
  then show ?thesis
    using inv slider by (simp add: slider_input_def updateAll_settings setting_get_set)
next
  case (TextInput p v)
  show ?thesis
  proof (cases "isNaN v")
    case True
    with TextInput inv show ?thesis by (simp add: text_input_def)
  next
    case False
    from bounds have b: "proper_bounds (bounds p)"
      by blast
    from in_range_clamp [OF b False]
    have "in_range (bounds p) (Math_max (fst (bounds p)) (Math_min (snd (bounds p)) v))" .
    with TextInput False inv show ?thesis
      by (simp add: text_input_def Let_def updateAll_settings setting_get_set)
  qed
next
  case (Drop_vanilla files)
  then show ?thesis using inv by (simp add: handleFiles_vanilla_settings)
next
  case (LoadDone i)
  then show ?thesis using inv by (simp add: load_done_settings)
next
  case (ResetClick_vanilla ty)
  then show ?thesis using inv by (simp add: resetTexture_vanilla_settings)
qed

lemma example_bounds_ok: "\<forall>p. proper_bounds (example_bounds p)"
proof
  fix p show "proper_bounds (example_bounds p)"
    by (cases p) simp_all
qed

lemma State_start_settings:
  "state_settings State_start =
     \<lparr>shape = ''cube'', tiling = Num 1, displacementScale = Num 0.05,
      exposure = Num 1, roughness = Num 1, metalness = Num 0\<rparr>"
  by (simp add: State_start_def initUI_def initThree_def updateGeometry_settings
      renderTextureSlots_def State_initial_def)

lemma State_start_in_range:
  "\<forall>p. in_range (example_bounds p) (setting_get p (state_settings State_start))"
proof
  fix p show "in_range (example_bounds p) (setting_get p (state_settings State_start))"
    by (cases p) (simp_all add: State_start_settings)
qed

lemma State_start_mesh:
  "mesh State_start \<noteq> None"
  by (simp add: State_start_def initUI_def initThree_def updateGeometry_def Let_def
      renderTextureSlots_def updateMaterial_mesh_None)

lemma shape_click_geometry:
  "map_option mesh_geometry (mesh (shape_click x st)) =
     Some (if x = ''sphere'' then SphereGeometry [1, 128, 128]
           else if x = ''plane'' then PlaneGeometry [2, 2, 512, 512]
           else BoxGeometry [1.5, 1.5, 1.5, 128, 128, 128])"
  by (simp add: shape_click_def updateGeometry_geometry)

lemma State_run_shape:
  assumes "\<forall>x. ShapeClick_vanilla x \<in> set evs \<longrightarrow> x \<in> set shape_ids"
    and "shape (state_settings st) \<in> set shape_ids"
  shows "shape (state_settings (State_run bounds evs st)) \<in> set shape_ids"
  using assms unfolding State_run_def
proof (induction evs arbitrary: st)
  case Nil
  then show ?case by simp
next
  case (Cons ev evs)
  have "shape (state_settings (State_step bounds st ev)) \<in> set shape_ids"
    using Cons.prems by (auto simp: State_step_shape split: State_event.splits)
  with Cons show ?case by simp
qed

section \<open>Dropping files and clearing slots\<close>

lemma handleFile_unmatched:
  "matchTextureType (file_name f) = None \<Longrightarrow> handleFile acc f = acc"
  by (cases acc) (simp add: handleFile_def)

lemma handleFile_vanilla_unmatched:
  "matchTextureType (file_name f) = None \<Longrightarrow> handleFile_vanilla st f = st"
  by (simp add: handleFile_vanilla_def vanilla_match)

text \<open>
  C4. Unmatched file names are silently ignored: in both versions a file whose name
  matches no keyword group can be struck from any dropped list without changing the
  resulting state, and dropped alone it leaves the state as it was (no slot changes, no
  URL is issued or revoked, no load is started). \<open>handleFiles\<close> has no failing branch:
  it yields a state for every list of files.
\<close>

theorem unmatched_files_ignored:
  "matchTextureType (file_name f) = None \<Longrightarrow>
     handleFiles (xs @ f # ys) app = handleFiles (xs @ ys) app
   \<and> handleFiles [f] app = app
   \<and> handleFiles_vanilla (xs @ f # ys) st = handleFiles_vanilla (xs @ ys) st
   \<and> handleFiles_vanilla [f] st = st"
  by (simp add: handleFiles_def handleFiles_vanilla_def handleFile_unmatched
      handleFile_vanilla_unmatched)

theorem unmatched_files_ignored_witness:
  "matchTextureType (file_name readme_txt) = None
   \<and> handleFiles ([color_png] @ readme_txt # [metal_png]) App_initial
       = handleFiles ([color_png] @ [metal_png]) App_initial
   \<and> handleFiles [readme_txt] App_initial = App_initial
   \<and> handleFiles_vanilla ([color_png] @ readme_txt # [metal_png]) State_start
       = handleFiles_vanilla ([color_png] @ [metal_png]) State_start
   \<and> handleFiles_vanilla [readme_txt] State_start = State_start"
proof -
  have "matchTextureType ''readme.txt'' = None"
    by code_simp
  then have h: "matchTextureType (file_name readme_txt) = None"
    by (simp add: readme_txt_def)
  from h unmatched_files_ignored [OF h] show ?thesis
    by blast
qed

text \<open>
  C7. \<open>resetTexture\<close> on an occupied slot: the component version revokes exactly the
  URL held by that slot (the log of revocations grows by that one entry, nothing is
  issued), the script version disposes exactly the texture held by that slot (and
  touches no URL); the slot becomes null, every other slot and all settings stay as
  they were.
\<close>

theorem resetTexture_occupied:
  "(slot_get (material app) t = Some held \<longrightarrow>
      resetTexture t app =
        app\<lparr>urls := (urls app)\<lparr>revoked := revoked (urls app) @ [url held]\<rparr>,
            material := slot_set (material app) t None\<rparr>
    \<and> slot_get (material (resetTexture t app)) t = None
    \<and> (\<forall>t'. t' \<noteq> t \<longrightarrow>
          slot_get (material (resetTexture t app)) t' = slot_get (material app) t')
    \<and> settings (resetTexture t app) = settings app
    \<and> revoked (urls (resetTexture t app)) = revoked (urls app) @ [url held]
    \<and> issued (urls (resetTexture t app)) = issued (urls app))
   \<and> (state_material st ty = Some tex \<longrightarrow>
      state_material (resetTexture_vanilla ty st) = (state_material st)(ty := None)
    \<and> state_textureFiles (resetTexture_vanilla ty st) = (state_textureFiles st)(ty := None)
    \<and> state_settings (resetTexture_vanilla ty st) = state_settings st
    \<and> (\<forall>x. dispose_calls (heap (resetTexture_vanilla ty st) x) =
           (if x = tex then Suc (dispose_calls (heap st x)) else dispose_calls (heap st x)))
    \<and> browser_urls (resetTexture_vanilla ty st) = browser_urls st
    \<and> pending_loads (resetTexture_vanilla ty st) = pending_loads st)"
proof -
  have component: "resetTexture t app =
        app\<lparr>urls := (urls app)\<lparr>revoked := revoked (urls app) @ [url held]\<rparr>,
            material := slot_set (material app) t None\<rparr>"
    if "slot_get (material app) t = Some held"
    using that by (simp add: resetTexture_def revokeObjectURL_def)
  have script: "state_material (resetTexture_vanilla ty st) = (state_material st)(ty := None)
    \<and> state_textureFiles (resetTexture_vanilla ty st) = (state_textureFiles st)(ty := None)
    \<and> state_settings (resetTexture_vanilla ty st) = state_settings st
    \<and> (\<forall>x. dispose_calls (heap (resetTexture_vanilla ty st) x) =
           (if x = tex then Suc (dispose_calls (heap st x)) else dispose_calls (heap st x)))
    \<and> browser_urls (resetTexture_vanilla ty st) = browser_urls st
    \<and> pending_loads (resetTexture_vanilla ty st) = pending_loads st"
    if "state_material st ty = Some tex"
    using that
    by (simp add: resetTexture_vanilla_def updateMaterial_frame updateMaterial_dispose
        renderTextureSlots_def dispose_def)
  show ?thesis
    using component script by (simp add: slot_get_set)
qed

theorem resetTexture_occupied_witness:
  "slot_get (material (handleFiles [color_png] App_initial)) Slot_map
     = Some \<lparr>url = 0, name = ''wood_color.png''\<rparr>
   \<and> slot_get (material (resetTexture Slot_map (handleFiles [color_png] App_initial))) Slot_map
       = None
   \<and> revoked (urls (resetTexture Slot_map (handleFiles [color_png] App_initial)))
       = revoked (urls (handleFiles [color_png] App_initial))
           @ [url \<lparr>url = 0, name = ''wood_color.png''\<rparr>]
   \<and> settings (resetTexture Slot_map (handleFiles [color_png] App_initial))
       = settings (handleFiles [color_png] App_initial)
   \<and> state_material (State_run example_bounds [Drop_vanilla [color_png], LoadDone 0] State_start)
        ''map'' = Some 0
   \<and> state_material (resetTexture_vanilla ''map''
        (State_run example_bounds [Drop_vanilla [color_png], LoadDone 0] State_start))
       = (state_material
           (State_run example_bounds [Drop_vanilla [color_png], LoadDone 0] State_start))
          (''map'' := None)
   \<and> dispose_calls (heap (resetTexture_vanilla ''map''
        (State_run example_bounds [Drop_vanilla [color_png], LoadDone 0] State_start)) 0)
       = Suc (dispose_calls
           (heap (State_run example_bounds [Drop_vanilla [color_png], LoadDone 0] State_start) 0))"
proof -
  have h1: "slot_get (material (handleFiles [color_png] App_initial)) Slot_map
     = Some \<lparr>url = 0, name = ''wood_color.png''\<rparr>"
    by (simp add: App_defs example_files)
  have h2: "state_material
      (State_run example_bounds [Drop_vanilla [color_png], LoadDone 0] State_start) ''map''
     = Some 0"
    by (simp add: State_defs example_files)
  from h1 h2
    resetTexture_occupied [of "handleFiles [color_png] App_initial" Slot_map
      "\<lparr>url = 0, name = ''wood_color.png''\<rparr>"
      "State_run example_bounds [Drop_vanilla [color_png], LoadDone 0] State_start" "''map''" 0]
  show ?thesis
    by simp
qed

text \<open>
  C9. \<open>resetTexture\<close> on an empty slot does nothing: the whole state, with the URL
  registry, the texture objects, the material, the settings and what the page displays,
  is the same afterwards.
\<close>

theorem resetTexture_empty_noop:
  "(slot_get (material app) t = None \<longrightarrow> resetTexture t app = app)
   \<and> (state_material st ty = None \<longrightarrow> resetTexture_vanilla ty st = st)"
  by (simp add: resetTexture_def resetTexture_vanilla_def)

theorem resetTexture_empty_noop_witness:
  "slot_get (material App_initial) Slot_aoMap = None
   \<and> resetTexture Slot_aoMap App_initial = App_initial
   \<and> state_material State_start ''aoMap'' = None
   \<and> resetTexture_vanilla ''aoMap'' State_start = State_start"
proof -
  have h1: "slot_get (material App_initial) Slot_aoMap = None"
    by (simp add: App_initial_def)
  have h2: "state_material State_start ''aoMap'' = None"
    by (simp add: State_defs)
  from h1 h2 resetTexture_empty_noop [of App_initial Slot_aoMap State_start "''aoMap''"]
  show ?thesis by simp
qed

section \<open>Material parameters\<close>

text \<open>
  C3, as stated, fails: with the start settings (metalness 0) and a metalness map
  loaded, the component version sets the material's metalness to 1 and the script
  version sets it to 0.
\<close>

theorem metalness_map_counterexample:
  "metalness (settings (App_run [Drop [metal_png]] App_initial))
     = metalness (state_settings
         (State_run example_bounds [Drop_vanilla [metal_png], LoadDone 0] State_start))
   \<and> mp_metalness (PBRMeshInternal (material (App_run [Drop [metal_png]] App_initial))
        (settings (App_run [Drop [metal_png]] App_initial))) = Num 1
   \<and> map_option mat_metalness (rendered_material (updateMaterial
        (State_run example_bounds [Drop_vanilla [metal_png], LoadDone 0] State_start)))
       = Some (Num 0)
   \<and> Some (mp_metalness (PBRMeshInternal (material (App_run [Drop [metal_png]] App_initial))
        (settings (App_run [Drop [metal_png]] App_initial))))
      \<noteq> map_option mat_metalness (rendered_material (updateMaterial
        (State_run example_bounds [Drop_vanilla [metal_png], LoadDone 0] State_start)))"
proof -
  have a: "App_run [Drop [metal_png]] App_initial =
     \<lparr>material = \<lparr>map_slot = None, normalMap = None, roughnessMap = None,
                   metalnessMap = Some \<lparr>url = 0, name = ''wood_metal.png''\<rparr>,
                   aoMap = None, displacementMap = None\<rparr>,
      settings = \<lparr>shape = Cube, tiling = Num 1, displacementScale = Num 0.05,
                   exposure = Num 1, roughness = Num 1, metalness = Num 0\<rparr>,
      isDragging = False,
      urls = \<lparr>issued = [metal_png], revoked = []\<rparr>\<rparr>"
    by (simp add: App_defs example_files)
  have b: "map_option mat_metalness (rendered_material (updateMaterial
        (State_run example_bounds [Drop_vanilla [metal_png], LoadDone 0] State_start)))
       = Some (Num 0)"
    by (simp add: State_defs example_files)
  have c: "metalness (state_settings
         (State_run example_bounds [Drop_vanilla [metal_png], LoadDone 0] State_start)) = Num 0"
    by (simp add: State_defs example_files)
  show ?thesis
    by (simp add: a b c PBRMeshInternal_def)
qed

text \<open>
  C3, amended. For equal settings both versions set the displacement scale to the
  setting. The script version always sets roughness and metalness to the settings'
  values; the component version does so when the corresponding map is absent and sets 1
  when it is loaded. Hence the two agree on roughness (metalness) exactly when the
  roughness (metalness) map is absent or the setting is 1.
\<close>

theorem material_parameters_agreement:
  assumes "mesh st = Some m"
    and "roughness s = roughness (state_settings st)"
    and "metalness s = metalness (state_settings st)"
    and "displacementScale s = displacementScale (state_settings st)"
  shows "map_option mat_displacementScale (rendered_material (updateMaterial st))
           = mp_displacementScale (PBRMeshInternal mt s)
       \<and> mp_roughness (PBRMeshInternal mt s)
           = (if roughnessMap mt = None then roughness s else Num 1)
       \<and> map_option mat_roughness (rendered_material (updateMaterial st)) = Some (roughness s)
       \<and> mp_metalness (PBRMeshInternal mt s)
           = (if metalnessMap mt = None then metalness s else Num 1)
       \<and> map_option mat_metalness (rendered_material (updateMaterial st)) = Some (metalness s)
       \<and> ((map_option mat_roughness (rendered_material (updateMaterial st))
              = Some (mp_roughness (PBRMeshInternal mt s)))
            \<longleftrightarrow> (roughnessMap mt = None \<or> roughness s = Num 1))
       \<and> ((map_option mat_metalness (rendered_material (updateMaterial st))
              = Some (mp_metalness (PBRMeshInternal mt s)))
            \<longleftrightarrow> (metalnessMap mt = None \<or> metalness s = Num 1))"
  using updateMaterial_scalars [OF assms(1)] assms(2-4)
  by (auto simp: PBRMeshInternal_def)

theorem material_parameters_agreement_witness:
  "map_option mat_displacementScale (rendered_material (updateMaterial State_start))
     = mp_displacementScale
         (PBRMeshInternal (material (App_run [Drop [metal_png]] App_initial))
            (settings App_initial))
   \<and> map_option mat_roughness (rendered_material (updateMaterial State_start))
     = Some (mp_roughness
         (PBRMeshInternal (material (App_run [Drop [metal_png]] App_initial))
            (settings App_initial)))
   \<and> map_option mat_metalness (rendered_material (updateMaterial State_start))
     \<noteq> Some (mp_metalness
         (PBRMeshInternal (material (App_run [Drop [metal_png]] App_initial))
            (settings App_initial)))"
proof -
  obtain m where m: "mesh State_start = Some m"
    using State_start_mesh by auto
  have s: "roughness (settings App_initial) = roughness (state_settings State_start)"
    "metalness (settings App_initial) = metalness (state_settings State_start)"
    "displacementScale (settings App_initial) = displacementScale (state_settings State_start)"
    by (simp_all add: State_start_settings App_initial_def)
  have v: "roughness (settings App_initial) = Num 1" "metalness (settings App_initial) = Num 0"
    "metalnessMap (material (App_run [Drop [metal_png]] App_initial)) \<noteq> None"
    by (simp_all add: App_defs example_files)
  note r = material_parameters_agreement [OF m s,
      of "material (App_run [Drop [metal_png]] App_initial)"]
  from r have 1: "map_option mat_displacementScale (rendered_material (updateMaterial State_start))
     = mp_displacementScale
         (PBRMeshInternal (material (App_run [Drop [metal_png]] App_initial))
            (settings App_initial))"
    by blast
  from r v(1) have 2: "map_option mat_roughness (rendered_material (updateMaterial State_start))
     = Some (mp_roughness
         (PBRMeshInternal (material (App_run [Drop [metal_png]] App_initial))
            (settings App_initial)))"
    by blast
  have "metalness (settings App_initial) \<noteq> Num 1"
    using v(2) by simp
  with r v(3) have 3: "map_option mat_metalness (rendered_material (updateMaterial State_start))
     \<noteq> Some (mp_metalness
         (PBRMeshInternal (material (App_run [Drop [metal_png]] App_initial))
            (settings App_initial)))"
    by blast
  from 1 2 3 show ?thesis by blast
qed

section \<open>Geometry\<close>

text \<open>
  C6. The geometry kind comes from a fixed closed set. In the component version the
  shape is one of cube, sphere and plane by its type, and the mesh gets the geometry of
  the selected shape. In the script version selecting \<open>sphere\<close> gives a sphere
  geometry, \<open>plane\<close> a plane geometry and \<open>cube\<close>, like any other value, a box geometry,
  the same geometries as in the component version; and when the shape buttons carry the
  three names, the shape setting is one of them after any sequence of events.
\<close>

theorem geometry_kind_closed:
  "(sh = Cube \<or> sh = Sphere \<or> sh = Plane)
   \<and> Geometry Sphere = SphereGeometry [1, 128, 128]
   \<and> Geometry Plane = PlaneGeometry [2, 2, 512, 512]
   \<and> Geometry Cube = BoxGeometry [1.5, 1.5, 1.5, 128, 128, 128]
   \<and> mp_geometry (PBRMeshInternal mt (settings (App_step app (ShapeClick sh)))) = Geometry sh
   \<and> map_option mesh_geometry (mesh (shape_click x st)) =
        Some (if x = ''sphere'' then SphereGeometry [1, 128, 128]
              else if x = ''plane'' then PlaneGeometry [2, 2, 512, 512]
              else BoxGeometry [1.5, 1.5, 1.5, 128, 128, 128])
   \<and> map_option mesh_geometry (mesh (shape_click (shape_id sh) st)) = Some (Geometry sh)
   \<and> ((\<forall>y. ShapeClick_vanilla y \<in> set evs \<longrightarrow> y \<in> set shape_ids) \<longrightarrow>
        shape (state_settings (State_run bounds evs State_start)) \<in> set shape_ids)"
proof -
  have "sh = Cube \<or> sh = Sphere \<or> sh = Plane"
    by (cases sh) simp_all
  moreover have "map_option mesh_geometry (mesh (shape_click (shape_id sh) st)) = Some (Geometry sh)"
    by (cases sh) (simp_all add: shape_click_geometry)
  moreover have "shape (state_settings State_start) \<in> set shape_ids"
    by (simp add: State_start_settings shape_ids_def)
  ultimately show ?thesis
    using State_run_shape [of evs State_start bounds]
    by (simp add: PBRMeshInternal_def shape_click_geometry)
qed

theorem geometry_kind_closed_witness:
  "map_option mesh_geometry (mesh (shape_click ''sphere'' State_start))
     = Some (SphereGeometry [1, 128, 128])
   \<and> map_option mesh_geometry (mesh (shape_click ''torus'' State_start))
     = Some (BoxGeometry [1.5, 1.5, 1.5, 128, 128, 128])
   \<and> map_option mesh_geometry (mesh (shape_click (shape_id Plane) State_start))
     = Some (Geometry Plane)
   \<and> shape (state_settings (State_run example_bounds
        [ShapeClick_vanilla ''plane'', TextInput P_tiling (Num 2), ShapeClick_vanilla ''sphere'']
        State_start)) \<in> set shape_ids"
proof -
  have h: "\<forall>y. ShapeClick_vanilla y \<in> set
      [ShapeClick_vanilla ''plane'', TextInput P_tiling (Num 2), ShapeClick_vanilla ''sphere'']
      \<longrightarrow> y \<in> set shape_ids"
    by (auto simp: shape_ids_def)
  from h
    geometry_kind_closed [of Plane _ _ "''sphere''" State_start
      "[ShapeClick_vanilla ''plane'', TextInput P_tiling (Num 2), ShapeClick_vanilla ''sphere'']"
      example_bounds]
    geometry_kind_closed [of Plane _ _ "''torus''" State_start]
  show ?thesis by simp
qed

section \<open>Parameter inputs of the script version\<close>

lemma text_input_stored:
  "\<not> isNaN v \<Longrightarrow>
   setting_get q (state_settings (text_input bounds p v s)) =
     (if q = p then Math_max (fst (bounds p)) (Math_min (snd (bounds p)) v)
      else setting_get q (state_settings s))"
  by (simp add: text_input_def Let_def updateAll_settings setting_get_set)

lemma clamp_value:
  "Math_max (Num lo) (Math_min (Num hi) (Num x)) = Num (max lo (min hi x))"
  by simp

lemma clamp_in_range_id:
  "in_range b v \<Longrightarrow> Math_max (fst b) (Math_min (snd b) v) = v"
  by (cases "(b, v)" rule: in_range.cases) auto

lemma in_range_not_NaN: "in_range b v \<Longrightarrow> \<not> isNaN v"
  by (cases "(b, v)" rule: in_range.cases) (auto simp: isNaN_def)

lemma State_run_in_range:
  assumes bounds: "\<forall>p. proper_bounds (bounds p)"
    and init: "\<forall>p. in_range (bounds p) (setting_get p (state_settings st))"
    and sliders: "\<forall>p v. SliderInput p v \<in> set evs \<longrightarrow> in_range (bounds p) v"
  shows "\<forall>p. in_range (bounds p) (setting_get p (state_settings (State_run bounds evs st)))"
  using init sliders unfolding State_run_def
proof (induction evs arbitrary: st)
  case Nil
  then show ?case by simp
next
  case (Cons ev evs)
  have "\<forall>q. in_range (bounds q) (setting_get q (state_settings (State_step bounds st ev)))"
    using State_step_in_range [OF bounds Cons.prems(1)] Cons.prems(2) by simp
  then show ?case
    using Cons.IH [of "State_step bounds st ev"] Cons.prems(2) by simp
qed

text \<open>
  C8. With proper bounds on each range input, settings that start within their bounds,
  and range inputs that deliver values within their bounds, every one of tiling,
  displacementScale, exposure, roughness and metalness is within the bounds of its range
  input after any sequence of events. The number input's listener clamps before it
  stores: for an entered number \<open>x\<close> and bounds \<open>lo\<close> and \<open>hi\<close> it stores
  \<open>max lo (min hi x)\<close>, which is the entered value itself when that is within the
  bounds; text that does not parse leaves the whole state as it was; and no other
  parameter's setting changes. The range input's listener stores the value delivered.
\<close>

theorem settings_within_slider_bounds:
  assumes bounds: "\<forall>p. proper_bounds (bounds p)"
    and init: "\<forall>p. in_range (bounds p) (setting_get p (state_settings st))"
    and sliders: "\<forall>p v. SliderInput p v \<in> set evs \<longrightarrow> in_range (bounds p) v"
  shows "(\<forall>p. in_range (bounds p) (setting_get p (state_settings (State_run bounds evs st))))
     \<and> (\<forall>p lo hi x s. bounds p = (Num lo, Num hi) \<longrightarrow>
           setting_get p (state_settings (text_input bounds p (Num x) s))
             = Num (max lo (min hi x)))
     \<and> (\<forall>p v s. in_range (bounds p) v \<longrightarrow>
           setting_get p (state_settings (text_input bounds p v s)) = v)
     \<and> (\<forall>p s. text_input bounds p NaN s = s)
     \<and> (\<forall>p q v s. q \<noteq> p \<longrightarrow>
           setting_get q (state_settings (text_input bounds p v s))
             = setting_get q (state_settings s))
     \<and> (\<forall>p q v s. setting_get q (state_settings (slider_input p v s))
           = (if q = p then v else setting_get q (state_settings s)))"
proof (intro conjI)
  show "\<forall>p. in_range (bounds p) (setting_get p (state_settings (State_run bounds evs st)))"
    by (rule State_run_in_range [OF bounds init sliders])
  show "\<forall>p lo hi x s. bounds p = (Num lo, Num hi) \<longrightarrow>
           setting_get p (state_settings (text_input bounds p (Num x) s))
             = Num (max lo (min hi x))"
    by (simp add: text_input_stored isNaN_def)
  show "\<forall>p v s. in_range (bounds p) v \<longrightarrow>
           setting_get p (state_settings (text_input bounds p v s)) = v"
    by (simp add: text_input_stored in_range_not_NaN clamp_in_range_id)
  show "\<forall>p s. text_input bounds p NaN s = s"
    by (simp add: text_input_def isNaN_def)
  show "\<forall>p q v s. q \<noteq> p \<longrightarrow>
           setting_get q (state_settings (text_input bounds p v s))
             = setting_get q (state_settings s)"
  proof (intro allI impI)
    fix p q :: param and v s assume "q \<noteq> p"
    then show "setting_get q (state_settings (text_input bounds p v s))
             = setting_get q (state_settings s)"
      by (cases "isNaN v") (simp_all add: text_input_stored, simp add: text_input_def)
  qed
  show "\<forall>p q v s. setting_get q (state_settings (slider_input p v s))
           = (if q = p then v else setting_get q (state_settings s))"
    by (simp add: slider_input_def updateAll_settings setting_get_set)
qed

theorem settings_within_slider_bounds_witness:
  "(\<forall>p. proper_bounds (example_bounds p))
   \<and> (\<forall>p. in_range (example_bounds p) (setting_get p (state_settings State_start)))
   \<and> (\<forall>p. in_range (example_bounds p)
          (setting_get p (state_settings
             (State_run example_bounds
                [TextInput P_tiling (Num 50), SliderInput P_exposure (Num 2),
                 TextInput P_roughness NaN, TextInput P_metalness (Num (- 3))]
                State_start))))
   \<and> setting_get P_tiling (state_settings
         (text_input example_bounds P_tiling (Num 2) State_start)) = Num 2
   \<and> setting_get P_tiling (state_settings
         (text_input example_bounds P_tiling (Num 50) State_start)) = Num 10
   \<and> setting_get P_metalness (state_settings
         (text_input example_bounds P_metalness (Num (- 3)) State_start)) = Num 0
   \<and> text_input example_bounds P_roughness NaN State_start = State_start
   \<and> setting_get P_exposure (state_settings
         (text_input example_bounds P_tiling (Num 50) State_start))
       = setting_get P_exposure (state_settings State_start)
   \<and> setting_get P_exposure (state_settings (slider_input P_exposure (Num 2) State_start))
       = Num 2"
proof -
  have s: "\<forall>p v. SliderInput p v \<in> set
      [TextInput P_tiling (Num 50), SliderInput P_exposure (Num 2),
       TextInput P_roughness NaN, TextInput P_metalness (Num (- 3))]
      \<longrightarrow> in_range (example_bounds p) v"
    by auto
  note r = settings_within_slider_bounds [OF example_bounds_ok State_start_in_range s]
  from r have run: "\<forall>p. in_range (example_bounds p)
          (setting_get p (state_settings
             (State_run example_bounds
                [TextInput P_tiling (Num 50), SliderInput P_exposure (Num 2),
                 TextInput P_roughness NaN, TextInput P_metalness (Num (- 3))]
                State_start)))"
    by blast
  from r have clamp: "\<And>p lo hi x s. example_bounds p = (Num lo, Num hi) \<Longrightarrow>
           setting_get p (state_settings (text_input example_bounds p (Num x) s))
             = Num (max lo (min hi x))"
    by blast
  from r have nan: "\<And>p s. text_input example_bounds p NaN s = s"
    by blast
  from r have other: "\<And>p q v s. q \<noteq> p \<Longrightarrow>
           setting_get q (state_settings (text_input example_bounds p v s))
             = setting_get q (state_settings s)"
    by blast
  from r have slider: "\<And>p q v s. setting_get q (state_settings (slider_input p v s))
           = (if q = p then v else setting_get q (state_settings s))"
    by blast
  have a: "setting_get P_tiling (state_settings
         (text_input example_bounds P_tiling (Num 2) State_start)) = Num 2"
    using clamp [of P_tiling "0.1" 10 2 State_start] by simp
  have b: "setting_get P_tiling (state_settings
         (text_input example_bounds P_tiling (Num 50) State_start)) = Num 10"
    using clamp [of P_tiling "0.1" 10 50 State_start] by simp
  have c: "setting_get P_metalness (state_settings
         (text_input example_bounds P_metalness (Num (- 3)) State_start)) = Num 0"
    using clamp [of P_metalness 0 1 "- 3" State_start] by simp
  have d: "setting_get P_exposure (state_settings
         (text_input example_bounds P_tiling (Num 50) State_start))
       = setting_get P_exposure (state_settings State_start)"
    using other [of P_exposure P_tiling] by simp
  have e: "setting_get P_exposure (state_settings (slider_input P_exposure (Num 2) State_start))
       = Num 2"
    using slider [of P_exposure P_exposure] by simp
  from example_bounds_ok State_start_in_range run a b c nan [of P_roughness State_start] d e
  show ?thesis by blast
qed

section \<open>One asset per slot in the component version\<close>

text \<open>
  In the component version a slot ends a drop holding the last file of the batch that
  matches it, and every sequence of events from the start keeps one asset per slot:
  whatever a slot held before it was overwritten or cleared has been revoked.
\<close>

lemma slot_url_set:
  "slot_url (slot_set m t v) t' = (if t' = t then map_option url v else slot_url m t')"
  by (simp add: slot_url_def slot_get_set)

lemma handleFile_matched:
  "matchTextureType (file_name f) = Some t \<Longrightarrow>
   handleFile (m, reg) f =
     (slot_set m t (Some \<lparr>url = length (issued reg), name = file_name f\<rparr>),
      \<lparr>issued = issued reg @ [f],
       revoked = (case slot_get m t of Some old \<Rightarrow> revoked reg @ [url old] | None \<Rightarrow> revoked reg)\<rparr>)"
  by (simp add: handleFile_def Let_def createObjectURL_def revokeObjectURL_def split: option.splits)

lemma handleFile_name:
  "map_option name (slot_get (fst (handleFile (m, reg) f)) t) =
     (if matchTextureType (file_name f) = Some t then Some (file_name f)
      else map_option name (slot_get m t))"
  by (auto simp: handleFile_def Let_def createObjectURL_def slot_get_set split: option.splits)

lemma foldl_handleFile_name:
  "map_option name (slot_get (fst (foldl handleFile (m, reg) files)) t) =
     (case filter (\<lambda>f. matchTextureType (file_name f) = Some t) files of
        [] \<Rightarrow> map_option name (slot_get m t)
      | f # fs \<Rightarrow> Some (file_name (last (f # fs))))"
proof (induction files rule: rev_induct)
  case Nil
  show ?case by simp
next
  case (snoc f files)
  show ?case
    using snoc.IH handleFile_name [of "fst (foldl handleFile (m, reg) files)"
        "snd (foldl handleFile (m, reg) files)" f t]
    by (simp split: list.splits)
qed

lemma handleFiles_last_match:
  "map_option name (slot_get (material (handleFiles files app)) t) =
     (case filter (\<lambda>f. matchTextureType (file_name f) = Some t) files of
        [] \<Rightarrow> map_option name (slot_get (material app) t)
      | f # fs \<Rightarrow> Some (file_name (last (f # fs))))"
  using foldl_handleFile_name [of "material app" "urls app" files t]
  by (simp add: handleFiles_def case_prod_beta)


lemma one_asset_step:
  assumes i1: "\<And>u. u \<in> set rv \<Longrightarrow> u < n"
    and i2: "\<And>t u. su t = Some u \<Longrightarrow> u < n \<and> u \<notin> set rv"
    and i3: "\<And>u. u < n \<Longrightarrow> u \<notin> set rv \<Longrightarrow> \<exists>t. su t = Some u"
    and i4: "\<And>t t' u. su t = Some u \<Longrightarrow> su t' = Some u \<Longrightarrow> t = t'"
    and rv': "set rv' = set rv \<union> set_option (su t)"
  shows "(\<forall>u \<in> set rv'. u < Suc n)
     \<and> (\<forall>t' u. (su(t := Some n)) t' = Some u \<longrightarrow> u < Suc n \<and> u \<notin> set rv')
     \<and> (\<forall>u. u < Suc n \<and> u \<notin> set rv' \<longrightarrow> (\<exists>t'. (su(t := Some n)) t' = Some u))
     \<and> (\<forall>t' t'' u. (su(t := Some n)) t' = Some u \<and> (su(t := Some n)) t'' = Some u \<longrightarrow> t' = t'')"
proof (intro conjI)
  show "\<forall>u \<in> set rv'. u < Suc n"
    using i1 i2 rv' by (auto simp: less_Suc_eq)
  show "\<forall>t' u. (su(t := Some n)) t' = Some u \<longrightarrow> u < Suc n \<and> u \<notin> set rv'"
    using i1 i2 i4 rv' by (auto simp: less_Suc_eq)
  show "\<forall>u. u < Suc n \<and> u \<notin> set rv' \<longrightarrow> (\<exists>t'. (su(t := Some n)) t' = Some u)"
  proof (intro allI impI)
    fix u assume u: "u < Suc n \<and> u \<notin> set rv'"
    show "\<exists>t'. (su(t := Some n)) t' = Some u"
    proof (cases "u = n")
      case True
      then show ?thesis by auto
    next
      case False
      with u rv' have "u < n" "u \<notin> set rv" "su t \<noteq> Some u" by auto
      with i3 obtain t' where "su t' = Some u" by blast
      with \<open>su t \<noteq> Some u\<close> have "(su(t := Some n)) t' = Some u" by auto
      then show ?thesis ..
    qed
  qed
  show "\<forall>t' t'' u. (su(t := Some n)) t' = Some u \<and> (su(t := Some n)) t'' = Some u \<longrightarrow> t' = t''"
    using i2 i4 by (auto split: if_splits)
qed

lemma one_asset_clear:
  assumes i1: "\<And>u. u \<in> set rv \<Longrightarrow> u < n"
    and i2: "\<And>t u. su t = Some u \<Longrightarrow> u < n \<and> u \<notin> set rv"
    and i3: "\<And>u. u < n \<Longrightarrow> u \<notin> set rv \<Longrightarrow> \<exists>t. su t = Some u"
    and i4: "\<And>t t' u. su t = Some u \<Longrightarrow> su t' = Some u \<Longrightarrow> t = t'"
    and rv': "set rv' = set rv \<union> set_option (su t)"
  shows "(\<forall>u \<in> set rv'. u < n)
     \<and> (\<forall>t' u. (su(t := None)) t' = Some u \<longrightarrow> u < n \<and> u \<notin> set rv')
     \<and> (\<forall>u. u < n \<and> u \<notin> set rv' \<longrightarrow> (\<exists>t'. (su(t := None)) t' = Some u))
     \<and> (\<forall>t' t'' u. (su(t := None)) t' = Some u \<and> (su(t := None)) t'' = Some u \<longrightarrow> t' = t'')"
proof (intro conjI)
  show "\<forall>u \<in> set rv'. u < n"
    using i1 i2 rv' by auto
  show "\<forall>t' u. (su(t := None)) t' = Some u \<longrightarrow> u < n \<and> u \<notin> set rv'"
    using i2 i4 rv' by (auto split: if_splits)
  show "\<forall>u. u < n \<and> u \<notin> set rv' \<longrightarrow> (\<exists>t'. (su(t := None)) t' = Some u)"
  proof (intro allI impI)
    fix u assume u: "u < n \<and> u \<notin> set rv'"
    with rv' have "u \<notin> set rv" "su t \<noteq> Some u" by auto
    with u i3 obtain t' where "su t' = Some u" by blast
    with \<open>su t \<noteq> Some u\<close> have "(su(t := None)) t' = Some u" by auto
    then show "\<exists>t'. (su(t := None)) t' = Some u" ..
  qed
  show "\<forall>t' t'' u. (su(t := None)) t' = Some u \<and> (su(t := None)) t'' = Some u \<longrightarrow> t' = t''"
    using i4 by (auto split: if_splits)
qed

lemma one_asset_per_slot_iff:
  "one_asset_per_slot m reg \<longleftrightarrow>
     (\<forall>u \<in> set (revoked reg). u < length (issued reg))
     \<and> (\<forall>t u. slot_url m t = Some u \<longrightarrow> u < length (issued reg) \<and> u \<notin> set (revoked reg))
     \<and> (\<forall>u. u < length (issued reg) \<and> u \<notin> set (revoked reg) \<longrightarrow> (\<exists>t. slot_url m t = Some u))
     \<and> (\<forall>t t' u. slot_url m t = Some u \<and> slot_url m t' = Some u \<longrightarrow> t = t')"
  by (auto simp: one_asset_per_slot_def live_urls_def)

lemma slot_url_slot_set: "slot_url (slot_set m t v) = (slot_url m)(t := map_option url v)"
  by (rule ext) (simp add: slot_url_set)

lemma one_asset_per_slotD:
  assumes "one_asset_per_slot m reg"
  shows "\<And>u. u \<in> set (revoked reg) \<Longrightarrow> u < length (issued reg)"
    and "\<And>t u. slot_url m t = Some u \<Longrightarrow> u < length (issued reg) \<and> u \<notin> set (revoked reg)"
    and "\<And>u. u < length (issued reg) \<Longrightarrow> u \<notin> set (revoked reg) \<Longrightarrow> \<exists>t. slot_url m t = Some u"
    and "\<And>t t' u. slot_url m t = Some u \<Longrightarrow> slot_url m t' = Some u \<Longrightarrow> t = t'"
proof -
  note a = assms [unfolded one_asset_per_slot_iff]
  show "\<And>u. u \<in> set (revoked reg) \<Longrightarrow> u < length (issued reg)"
    using a by blast
  show "\<And>t u. slot_url m t = Some u \<Longrightarrow> u < length (issued reg) \<and> u \<notin> set (revoked reg)"
    using a by blast
  show "\<And>u. u < length (issued reg) \<Longrightarrow> u \<notin> set (revoked reg) \<Longrightarrow> \<exists>t. slot_url m t = Some u"
    using a by blast
  show "\<And>t t' u. slot_url m t = Some u \<Longrightarrow> slot_url m t' = Some u \<Longrightarrow> t = t'"
    using a by blast
qed

lemma handleFile_one_asset:
  assumes inv: "one_asset_per_slot m reg"
  shows "one_asset_per_slot (fst (handleFile (m, reg) f)) (snd (handleFile (m, reg) f))"
proof (cases "matchTextureType (file_name f)")
  case None
  with inv show ?thesis by (simp add: handleFile_def)
next
  case (Some t)
  define rv' where
    "rv' = (case slot_get m t of Some old \<Rightarrow> revoked reg @ [url old] | None \<Rightarrow> revoked reg)"
  define m' where "m' = slot_set m t (Some \<lparr>url = length (issued reg), name = file_name f\<rparr>)"
  define reg' where "reg' = \<lparr>issued = issued reg @ [f], revoked = rv'\<rparr>"
  have step: "handleFile (m, reg) f = (m', reg')"
    unfolding m'_def reg'_def rv'_def by (rule handleFile_matched [OF Some])
  have rv': "set rv' = set (revoked reg) \<union> set_option (slot_url m t)"
    by (simp add: rv'_def slot_url_def split: option.splits)
  have su: "slot_url m' = (slot_url m)(t := Some (length (issued reg)))"
    by (simp add: m'_def slot_url_slot_set)
  have reg: "length (issued reg') = Suc (length (issued reg))" "revoked reg' = rv'"
    by (simp_all add: reg'_def)
  note r = one_asset_step [of "revoked reg" "length (issued reg)" "slot_url m" rv' t,
      OF one_asset_per_slotD [OF inv] rv']
  have "one_asset_per_slot m' reg'"
    unfolding one_asset_per_slot_iff su reg by (rule r)
  then show ?thesis by (simp add: step)
qed

lemma foldl_handleFile_one_asset:
  "one_asset_per_slot m reg \<Longrightarrow>
   one_asset_per_slot (fst (foldl handleFile (m, reg) files))
     (snd (foldl handleFile (m, reg) files))"
proof (induction files arbitrary: m reg)
  case Nil
  then show ?case by simp
next
  case (Cons f files)
  from handleFile_one_asset [OF Cons.prems, of f]
  show ?case
    using Cons.IH [of "fst (handleFile (m, reg) f)" "snd (handleFile (m, reg) f)"]
    by simp
qed

lemma handleFiles_one_asset:
  "one_asset_per_slot (material app) (urls app) \<Longrightarrow>
   one_asset_per_slot (material (handleFiles files app)) (urls (handleFiles files app))"
  using foldl_handleFile_one_asset [of "material app" "urls app" files]
  by (simp add: handleFiles_def case_prod_beta)

lemma resetTexture_one_asset:
  assumes inv: "one_asset_per_slot (material app) (urls app)"
  shows "one_asset_per_slot (material (resetTexture t app)) (urls (resetTexture t app))"
proof (cases "slot_get (material app) t")
  case None
  with inv show ?thesis by (simp add: resetTexture_def)
next
  case (Some held)
  define rv' where "rv' = revoked (urls app) @ [url held]"
  have rv': "set rv' = set (revoked (urls app)) \<union> set_option (slot_url (material app) t)"
    using Some by (simp add: rv'_def slot_url_def)
  have mat: "slot_url (material (resetTexture t app)) = (slot_url (material app))(t := None)"
    using Some by (simp add: resetTexture_def slot_url_slot_set)
  have reg: "length (issued (urls (resetTexture t app))) = length (issued (urls app))"
    "revoked (urls (resetTexture t app)) = rv'"
    using Some by (simp_all add: resetTexture_def revokeObjectURL_def rv'_def)
  note r = one_asset_clear [of "revoked (urls app)" "length (issued (urls app))"
      "slot_url (material app)" rv' t, OF one_asset_per_slotD [OF inv] rv']
  show ?thesis
    unfolding one_asset_per_slot_iff mat reg by (rule r)
qed

lemma App_step_one_asset:
  "one_asset_per_slot (material app) (urls app) \<Longrightarrow>
   one_asset_per_slot (material (App_step app ev)) (urls (App_step app ev))"
proof (cases ev)
  case (Drop files)
  assume "one_asset_per_slot (material app) (urls app)"
  then have "one_asset_per_slot (material (app\<lparr>isDragging := False\<rparr>))
     (urls (app\<lparr>isDragging := False\<rparr>))"
    by simp
  from handleFiles_one_asset [OF this, of files] this Drop show ?thesis
    by (simp add: onDrop_def Let_def)
qed (simp_all add: onDragOver_def onDragLeave_def resetTexture_one_asset)

lemma App_run_one_asset:
  "one_asset_per_slot (material app) (urls app) \<Longrightarrow>
   one_asset_per_slot (material (App_run evs app)) (urls (App_run evs app))"
  unfolding App_run_def
  by (induction evs arbitrary: app) (simp_all add: App_step_one_asset)

lemma App_initial_one_asset:
  "one_asset_per_slot (material App_initial) (urls App_initial)"
proof -
  have "slot_url (material App_initial) t = None" for t
    by (cases t) (simp_all add: slot_url_def App_initial_def)
  then show ?thesis
    by (simp add: one_asset_per_slot_iff) (simp add: App_initial_def)
qed

lemma App_reachable_one_asset:
  "one_asset_per_slot (material (App_run evs App_initial)) (urls (App_run evs App_initial))"
  by (rule App_run_one_asset [OF App_initial_one_asset])

section \<open>Several files for one slot\<close>

text \<open>
  C5, evaluated where the script version departs from it. Two files that both match the
  slot \<open>map\<close> are dropped together on the start state. If the second load completes
  first, the slot ends holding the first file, and the second file's texture, which the
  slot held in between, has never been disposed. If the loads complete in order, the
  slot ends holding the second file and the first file's texture has never been
  disposed. The component version on the same files ends holding the second file and
  has revoked the first file's URL.
\<close>

theorem vanilla_batch_same_slot:
  "state_textureFiles
      (State_run example_bounds
         [Drop_vanilla [color_png, brick_color_png], LoadDone 1, LoadDone 0] State_start) ''map''
     = Some color_png
   \<and> state_material
      (State_run example_bounds
         [Drop_vanilla [color_png, brick_color_png], LoadDone 1, LoadDone 0] State_start) ''map''
     = Some 0
   \<and> dispose_calls (heap
      (State_run example_bounds
         [Drop_vanilla [color_png, brick_color_png], LoadDone 1, LoadDone 0] State_start) 1) = 0
   \<and> state_textureFiles
      (State_run example_bounds
         [Drop_vanilla [color_png, brick_color_png], LoadDone 0, LoadDone 0] State_start) ''map''
     = Some brick_color_png
   \<and> dispose_calls (heap
      (State_run example_bounds
         [Drop_vanilla [color_png, brick_color_png], LoadDone 0, LoadDone 0] State_start) 0) = 0
   \<and> slot_get (material (handleFiles [color_png, brick_color_png] App_initial)) Slot_map
     = Some \<lparr>url = 1, name = ''brick_color.png''\<rparr>
   \<and> revoked (urls (handleFiles [color_png, brick_color_png] App_initial)) = [0]"
  by (simp add: State_defs App_defs example_files)

end
